theory Spec2Isabelle
  imports Main
begin

section \<open>Python values, exceptions and outcomes\<close>

text \<open>
  The module \<^verbatim>\<open>jina/logging/profile.py\<close> is embedded method by method. A method
  call either returns a value or raises; in both cases the receiver object is left in
  some state, which the outcome carries.
\<close>

datatype py_exc = IndexError | ZeroDivisionError | AttributeError | Exception string

datatype pyval = PyNone | PyBool bool | PyStr string | PySelf

text \<open>Python truthiness: \<^verbatim>\<open>None\<close>, \<^verbatim>\<open>False\<close> and the empty string
  are falsy; an object without \<^verbatim>\<open>__bool__\<close> and \<^verbatim>\<open>__len__\<close> is truthy.\<close>

fun truthy :: "pyval \<Rightarrow> bool" where
  "truthy PyNone = False"
| "truthy (PyBool b) = b"
| "truthy (PyStr s) = (s \<noteq> [])"
| "truthy PySelf = True"

datatype ('a, 's) outcome = Return 'a 's | Raise py_exc 's

fun state_of :: "('a, 's) outcome \<Rightarrow> 's" where
  "state_of (Return v s) = s"
| "state_of (Raise e s) = s"

fun raised :: "('a, 's) outcome \<Rightarrow> bool" where
  "raised (Return v s) = False"
| "raised (Raise e s) = True"

section \<open>TimeDict: the named timer accumulator\<close>

text \<open>
  \<^verbatim>\<open>
  class TimeDict:
      def __init__(self):
          self.accum_time = defaultdict(float)
          self.first_start_time = defaultdict(float)
          self.start_time = defaultdict(float)
          self.end_time = defaultdict(float)
          self._key_stack = []
          self._pending_reset = False
  \<close>
  The four dictionaries are maps from keys to clock readings. The type \<open>'t\<close> of clock
  readings is left open: only \<open>0\<close> (the default of \<^verbatim>\<open>defaultdict(float)\<close>),
  \<open>+\<close> and \<open>-\<close> are used, and no law of arithmetic is assumed of them. The key
  stack is a Python list: \<^verbatim>\<open>append\<close> adds at the end, \<^verbatim>\<open>pop()\<close> and
  \<^verbatim>\<open>[-1]\<close> work at the end.
\<close>

record 't TimeDict =
  accum_time :: "string \<rightharpoonup> 't"
  first_start_time :: "string \<rightharpoonup> 't"
  start_time :: "string \<rightharpoonup> 't"
  end_time :: "string \<rightharpoonup> 't"
  key_stack :: "string list"
  pending_reset :: bool

definition TimeDict_init :: "'t TimeDict" where
  "TimeDict_init =
     \<lparr>accum_time = Map.empty, first_start_time = Map.empty, start_time = Map.empty,
      end_time = Map.empty, key_stack = [], pending_reset = False\<rparr>"

text \<open>Reading \<^verbatim>\<open>d[k]\<close> from a \<^verbatim>\<open>defaultdict(float)\<close>: a missing key is
  inserted with the default \<^verbatim>\<open>0.0\<close>, which is also the value read.\<close>

definition dd_getitem :: "('k \<rightharpoonup> 't::zero) \<Rightarrow> 'k \<Rightarrow> 't \<times> ('k \<rightharpoonup> 't)" where
  "dd_getitem d k = (case d k of None \<Rightarrow> (0, d(k \<mapsto> 0)) | Some v \<Rightarrow> (v, d))"

text \<open>
  \<^verbatim>\<open>
  def __call__(self, key: str, *args, **kwargs):
      self._key_stack.append(key)
      return self
  \<close>
\<close>

definition TimeDict_call :: "string \<Rightarrow> 't TimeDict \<Rightarrow> 't TimeDict" where
  "TimeDict_call key s = s\<lparr>key_stack := key_stack s @ [key]\<rparr>"

text \<open>
  \<^verbatim>\<open>
  def __enter__(self):
      _key = self._key_stack[-1]
      # store only the first enter time
      if _key not in self.first_start_time:
          self.first_start_time[_key] = time.perf_counter()
      self.start_time[_key] = time.perf_counter()
      return self
  \<close>
  The two arguments \<open>t1\<close> and \<open>t2\<close> are the readings of the two
  \<^verbatim>\<open>time.perf_counter()\<close> calls, the first of which is only made for a key not
  yet in \<^verbatim>\<open>first_start_time\<close>. On an empty list \<^verbatim>\<open>[-1]\<close> raises
  \<^verbatim>\<open>IndexError\<close>.
\<close>

definition TimeDict_enter :: "'t \<Rightarrow> 't \<Rightarrow> 't TimeDict \<Rightarrow> (pyval, 't TimeDict) outcome" where
  "TimeDict_enter t1 t2 s =
     (if key_stack s = [] then Raise IndexError s
      else
        let k = last (key_stack s);
            s1 = (if first_start_time s k = None
                  then s\<lparr>first_start_time := (first_start_time s)(k \<mapsto> t1)\<rparr> else s);
            s2 = s1\<lparr>start_time := (start_time s1)(k \<mapsto> t2)\<rparr>
        in Return PySelf s2)"

text \<open>
  \<^verbatim>\<open>
  def reset(self):
      if self._key_stack:
          self._pending_reset = True
      else:
          self.accum_time.clear()
          self.start_time.clear()
          self.first_start_time.clear()
          self.end_time.clear()
          self._key_stack.clear()
          self._pending_reset = False
  \<close>
\<close>

definition TimeDict_reset :: "'t TimeDict \<Rightarrow> 't TimeDict" where
  "TimeDict_reset s =
     (if key_stack s \<noteq> [] then s\<lparr>pending_reset := True\<rparr>
      else s\<lparr>accum_time := Map.empty, start_time := Map.empty,
             first_start_time := Map.empty, end_time := Map.empty,
             key_stack := [], pending_reset := False\<rparr>)"

text \<open>
  \<^verbatim>\<open>
  def __exit__(self, typ, value, traceback):
      _key = self._key_stack.pop()
      self.end_time[_key] = time.perf_counter()
      self.accum_time[_key] += self.end_time[_key] - self.start_time[_key]
      if self._pending_reset:
          self.reset()
  \<close>
  \<open>t\<close> is the reading of \<^verbatim>\<open>time.perf_counter()\<close>. \<^verbatim>\<open>pop()\<close> on an empty
  list raises \<^verbatim>\<open>IndexError\<close> before anything is written. The three dictionary
  reads go through \<^verbatim>\<open>defaultdict.__getitem__\<close>. The exception arguments are not
  used by the body, and the method returns \<^verbatim>\<open>None\<close>.
\<close>

definition TimeDict_exit :: "'t::{zero,plus,minus} \<Rightarrow> 't TimeDict \<Rightarrow> (pyval, 't TimeDict) outcome" where
  "TimeDict_exit t s =
     (if key_stack s = [] then Raise IndexError s
      else
        let k = last (key_stack s);
            s1 = s\<lparr>key_stack := butlast (key_stack s)\<rparr>;
            s2 = s1\<lparr>end_time := (end_time s1)(k \<mapsto> t)\<rparr>;
            (a, acc) = dd_getitem (accum_time s2) k;
            (e, en) = dd_getitem (end_time s2) k;
            (b, st) = dd_getitem (start_time s2) k;
            s3 = s2\<lparr>accum_time := acc(k \<mapsto> a + (e - b)), end_time := en, start_time := st\<rparr>
        in Return PyNone (if pending_reset s3 then TimeDict_reset s3 else s3))"

text \<open>
  The three operations of the accumulator as its callers use them:
  \<^verbatim>\<open>with td(key): ...\<close> evaluates \<^verbatim>\<open>td(key)\<close> and then calls
  \<^verbatim>\<open>__enter__\<close> on the result (begin); leaving the block calls
  \<^verbatim>\<open>__exit__\<close> (end); \<^verbatim>\<open>td.reset()\<close> requests a reset.
\<close>

definition TimeDict_begin :: "string \<Rightarrow> 't \<Rightarrow> 't \<Rightarrow> 't TimeDict \<Rightarrow> (pyval, 't TimeDict) outcome" where
  "TimeDict_begin key t1 t2 s = TimeDict_enter t1 t2 (TimeDict_call key s)"

datatype 't op = Begin string 't 't | End 't | RequestReset

fun step :: "'t::{zero,plus,minus} op \<Rightarrow> 't TimeDict \<Rightarrow> (pyval, 't TimeDict) outcome" where
  "step (Begin key t1 t2) s = TimeDict_begin key t1 t2 s"
| "step (End t) s = TimeDict_exit t s"
| "step RequestReset s = Return PyNone (TimeDict_reset s)"

text \<open>A sequence of operations stops at the first one that raises.\<close>

fun run :: "'t::{zero,plus,minus} op list \<Rightarrow> 't TimeDict \<Rightarrow> (pyval, 't TimeDict) outcome" where
  "run [] s = Return PyNone s"
| "run (x # xs) s =
     (case step x s of Return v s' \<Rightarrow> run xs s' | Raise e s' \<Rightarrow> Raise e s')"

text \<open>The four mappings and the stack are empty and no reset is pending.\<close>

definition cleared :: "'t TimeDict \<Rightarrow> bool" where
  "cleared s \<longleftrightarrow>
     accum_time s = Map.empty \<and> first_start_time s = Map.empty \<and> start_time s = Map.empty \<and>
     end_time s = Map.empty \<and> key_stack s = [] \<and> \<not> pending_reset s"

subsection \<open>Auxiliary notions for the statements\<close>

text \<open>\<^verbatim>\<open>accumulated[k]\<close> as a caller reads it from the \<^verbatim>\<open>defaultdict\<close>.\<close>

definition accumulated :: "'t::zero TimeDict \<Rightarrow> string \<Rightarrow> 't" where
  "accumulated s k = fst (dd_getitem (accum_time s) k)"

text \<open>The state in which \<^verbatim>\<open>__exit__\<close> reaches its last statement,
  \<^verbatim>\<open>if self._pending_reset\<close>, on a non-empty stack.\<close>

definition popped :: "'t::{zero,plus,minus} \<Rightarrow> 't TimeDict \<Rightarrow> 't TimeDict" where
  "popped t s =
     (let k = last (key_stack s) in
      s\<lparr>key_stack := butlast (key_stack s),
        end_time := (end_time s)(k \<mapsto> t),
        accum_time := (accum_time s)(k \<mapsto>
           fst (dd_getitem (accum_time s) k) + (t - fst (dd_getitem (start_time s) k))),
        start_time := snd (dd_getitem (start_time s) k)\<rparr>)"

text \<open>Every key on the stack has a recorded start.\<close>

definition started :: "'t TimeDict \<Rightarrow> bool" where
  "started s \<longleftrightarrow> (\<forall>k \<in> set (key_stack s). start_time s k \<noteq> None)"

subsection \<open>The measured intervals of a call sequence, in the specification's words\<close>

text \<open>
  The specification speaks of the completed (begin, end) pairs of a key and of their
  measured intervals: the stop timestamp minus the most recent start timestamp recorded
  for the key. Both are read off the call sequence alone. \<open>last_start k past\<close> is the
  most recent start recorded for \<open>k\<close> in the calls made so far (latest first);
  \<open>intervals k past opn xs\<close> lists, in order, the intervals measured for \<open>k\<close> by the
  calls \<open>xs\<close>, where \<open>opn\<close> holds the keys of the open regions, innermost first. An
  \<open>End\<close> with no open region is not LIFO use and ends the list.
\<close>

fun last_start :: "string \<Rightarrow> 't op list \<Rightarrow> 't option" where
  "last_start k [] = None"
| "last_start k (Begin j t1 t2 # past) = (if j = k then Some t2 else last_start k past)"
| "last_start k (x # past) = last_start k past"

fun intervals :: "string \<Rightarrow> 't::minus op list \<Rightarrow> string list \<Rightarrow> 't op list \<Rightarrow> 't list" where
  "intervals k past opn [] = []"
| "intervals k past opn (Begin j t1 t2 # xs) = intervals k (Begin j t1 t2 # past) (j # opn) xs"
| "intervals k past (j # opn) (End t # xs) =
     (if j = k then (case last_start k past of Some b \<Rightarrow> [t - b] | None \<Rightarrow> []) else [])
       @ intervals k (End t # past) opn xs"
| "intervals k past [] (End t # xs) = []"
| "intervals k past opn (RequestReset # xs) = intervals k (RequestReset # past) opn xs"

text \<open>Strict LIFO order: every end closes a region that is open, \<open>d\<close> being the number
  of regions open before the calls \<open>xs\<close>. A reset request opens and closes nothing.\<close>

fun lifo :: "nat \<Rightarrow> 't op list \<Rightarrow> bool" where
  "lifo d [] = True"
| "lifo d (Begin j t1 t2 # xs) = lifo (Suc d) xs"
| "lifo 0 (End t # xs) = False"
| "lifo (Suc d) (End t # xs) = lifo d xs"
| "lifo d (RequestReset # xs) = lifo d xs"

text \<open>The accumulator state agrees with the calls made so far.\<close>

definition tracks :: "'t TimeDict \<Rightarrow> 't op list \<Rightarrow> string list \<Rightarrow> bool" where
  "tracks s past opn \<longleftrightarrow>
     key_stack s = rev opn \<and> \<not> pending_reset s \<and>
     start_time s = (\<lambda>j. last_start j past) \<and> (\<forall>j \<in> set opn. last_start j past \<noteq> None)"

section \<open>The world outside: environment, loggers, console, library functions\<close>

text \<open>
  The module writes to loggers and to standard output and reads \<^verbatim>\<open>os.environ\<close>.
  The world records the environment and, in order, every log record and every text
  written to the console. \<^verbatim>\<open>default_logger\<close> and \<^verbatim>\<open>profile_logger\<close> are the
  two loggers of the package \<^verbatim>\<open>jina.logging\<close>; any other logger is one a caller
  supplies.
\<close>

datatype pylogger = default_logger | profile_logger | user_logger string

datatype level = INFO | WARNING

datatype event = Log pylogger level string | Print string

record world =
  environ :: "string \<rightharpoonup> string"
  events :: "event list"

definition emit :: "event \<Rightarrow> world \<Rightarrow> world" where
  "emit ev w = w\<lparr>events := events w @ [ev]\<rparr>"

text \<open>
  Functions of Python and of \<^verbatim>\<open>termcolor\<close> that the module calls and that are not
  part of it are parameters of the embedding:
  \<^item> \<open>fmt_float spec x\<close> is \<^verbatim>\<open>spec % x\<close> for a single float conversion such as
    \<^verbatim>\<open>'%3.3f'\<close>;
  \<^item> \<open>colored text color\<close> is \<^verbatim>\<open>termcolor.colored(text, color)\<close>;
  \<^item> \<open>truediv a b\<close> is the float \<^verbatim>\<open>a / b\<close> of two integers, for \<open>b \<noteq> 0\<close>.
\<close>

record 't pylib =
  fmt_float :: "string \<Rightarrow> 't \<Rightarrow> string"
  colored :: "string \<Rightarrow> string \<Rightarrow> string"
  truediv :: "int \<Rightarrow> int \<Rightarrow> 't"

text \<open>\<^verbatim>\<open>os.environ.get(key, default)\<close>: the variable's string, or the default.\<close>

definition environ_get :: "(string \<rightharpoonup> string) \<Rightarrow> string \<Rightarrow> pyval \<Rightarrow> pyval" where
  "environ_get env key dflt = (case env key of None \<Rightarrow> dflt | Some v \<Rightarrow> PyStr v)"

section \<open>used_memory: the memory probe\<close>

text \<open>
  \<^verbatim>\<open>
  def used_memory(unit: int = 1024 * 1024 * 1024) -> float:
      try:
          import resource
          return resource.getrusage(resource.RUSAGE_SELF).ru_maxrss / unit
      except ModuleNotFoundError:
          from . import default_logger
          default_logger.warning('module "resource" can not be found and you are likely running it on Windows')
          return 0
  \<close>
  The argument \<open>rss\<close> is what the platform answers: \<open>None\<close> when the module
  \<^verbatim>\<open>resource\<close> cannot be imported, \<open>Some m\<close> when \<^verbatim>\<open>ru_maxrss\<close> is \<open>m\<close>.
  Division by a zero \<open>unit\<close> raises \<^verbatim>\<open>ZeroDivisionError\<close>, which the
  \<^verbatim>\<open>except\<close> clause does not catch.
\<close>

definition resource_warning :: string where
  "resource_warning =
     ''module '' @ [CHR 0x22] @ ''resource'' @ [CHR 0x22] @
     '' can not be found and you are likely running it on Windows''"

definition used_memory :: "'t::zero pylib \<Rightarrow> int option \<Rightarrow> int \<Rightarrow> world \<Rightarrow> ('t, world) outcome" where
  "used_memory lib rss unit w =
     (case rss of
        Some m \<Rightarrow> if unit = 0 then Raise ZeroDivisionError w else Return (truediv lib m unit) w
      | None \<Rightarrow> Return 0 (emit (Log default_logger WARNING resource_warning) w))"

section \<open>profiling: the function wrapper\<close>

text \<open>
  The decorated object is any callable: calling it with its arguments either returns a
  value or raises, and may change the world. A function has a \<^verbatim>\<open>__qualname__\<close>;
  other callables (a \<^verbatim>\<open>functools.partial\<close>, an instance of a class with
  \<^verbatim>\<open>__call__\<close>) have none, and reading the attribute from them raises
  \<^verbatim>\<open>AttributeError\<close>. \<^verbatim>\<open>functools.wraps\<close> skips a missing attribute, so
  decorating such a callable succeeds.
\<close>

record ('a, 'v) pyfunc =
  qualname :: "string option"
  body :: "'a \<Rightarrow> world \<Rightarrow> ('v, world) outcome"

text \<open>The condition of line 43:
  \<^verbatim>\<open>if os.environ.get('JINA_PROFILING', False)\<close>.\<close>

definition profiling_enabled :: "world \<Rightarrow> bool" where
  "profiling_enabled w = truthy (environ_get (environ w) ''JINA_PROFILING'' (PyBool False))"

text \<open>
  The branch taken when the condition holds:
  \<^verbatim>\<open>
  start_t = time.perf_counter()
  start_mem = used_memory(unit=1024 * 1024)
  r = func(*args, **kwargs)
  elapsed = time.perf_counter() - start_t
  end_mem = used_memory(unit=1024 * 1024)
  level_prefix = ''
  mem_status = 'memory: %4.3fMB -> %4.3fMB' % (start_mem, end_mem)
  profile_logger.info('%s%s time: %3.3fs %s' % (level_prefix, func.__qualname__, elapsed, mem_status))
  \<close>
  \<open>t0\<close> and \<open>t1\<close> are the two readings of \<^verbatim>\<open>time.perf_counter()\<close>, \<open>rss0\<close> and
  \<open>rss1\<close> the platform's answers to the two memory queries. There is no
  \<^verbatim>\<open>try\<close>: an exception of \<^verbatim>\<open>func\<close> leaves the branch at once, and so does
  the \<^verbatim>\<open>AttributeError\<close> of \<^verbatim>\<open>func.__qualname__\<close> in the last line, which is
  evaluated after \<^verbatim>\<open>func\<close> has returned and both memory queries are done.
\<close>

definition profiled_call ::
  "'t::{zero,minus} pylib \<Rightarrow> ('a, 'v) pyfunc \<Rightarrow> 't \<Rightarrow> 't \<Rightarrow> int option \<Rightarrow> int option \<Rightarrow>
     'a \<Rightarrow> world \<Rightarrow> ('v, world) outcome" where
  "profiled_call lib func t0 t1 rss0 rss1 args w =
     (let start_t = t0 in
      case used_memory lib rss0 (1024 * 1024) w of
        Raise e w1 \<Rightarrow> Raise e w1
      | Return start_mem w1 \<Rightarrow>
          (case body func args w1 of
             Raise e w2 \<Rightarrow> Raise e w2
           | Return r w2 \<Rightarrow>
               (let elapsed = t1 - start_t in
                case used_memory lib rss1 (1024 * 1024) w2 of
                  Raise e w3 \<Rightarrow> Raise e w3
                | Return end_mem w3 \<Rightarrow>
                    (let level_prefix = [];
                         mem_status = ''memory: '' @ fmt_float lib ''%4.3f'' start_mem @
                           ''MB -> '' @ fmt_float lib ''%4.3f'' end_mem @ ''MB''
                     in case qualname func of
                          None \<Rightarrow> Raise AttributeError w3
                        | Some qn \<Rightarrow>
                            Return r
                              (emit (Log profile_logger INFO
                                 (level_prefix @ qn @ '' time: '' @
                                  fmt_float lib ''%3.3f'' elapsed @ ''s '' @ mem_status)) w3)))))"

text \<open>
  \<^verbatim>\<open>
  def arg_wrapper(*args, **kwargs):
      if os.environ.get('JINA_PROFILING', False):
          ...
      else:
          r = func(*args, **kwargs)
      return r
  \<close>
\<close>

definition arg_wrapper ::
  "'t::{zero,minus} pylib \<Rightarrow> ('a, 'v) pyfunc \<Rightarrow> 't \<Rightarrow> 't \<Rightarrow> int option \<Rightarrow> int option \<Rightarrow>
     'a \<Rightarrow> world \<Rightarrow> ('v, world) outcome" where
  "arg_wrapper lib func t0 t1 rss0 rss1 args w =
     (if profiling_enabled w then profiled_call lib func t0 t1 rss0 rss1 args w
      else body func args w)"

text \<open>
  \<^verbatim>\<open>
  def profiling(func):
      from . import profile_logger
      @wraps(func)
      def arg_wrapper(*args, **kwargs): ...
      return arg_wrapper
  \<close>
  \<open>w0\<close> is the world in which the function is decorated. The decorator reads nothing
  of it; the wrapper it returns is then called in later worlds.
\<close>

definition profiling ::
  "'t::{zero,minus} pylib \<Rightarrow> world \<Rightarrow> ('a, 'v) pyfunc \<Rightarrow> 't \<Rightarrow> 't \<Rightarrow> int option \<Rightarrow> int option \<Rightarrow>
     'a \<Rightarrow> world \<Rightarrow> ('v, world) outcome" where
  "profiling lib w0 func = arg_wrapper lib func"

text \<open>The records of the profiling logger among the events.\<close>

fun is_profile_line :: "event \<Rightarrow> bool" where
  "is_profile_line (Log profile_logger lv m) = True"
| "is_profile_line ev = False"

definition profile_lines :: "world \<Rightarrow> event list" where
  "profile_lines w = filter is_profile_line (events w)"

section \<open>TimeContext: the scoped timer\<close>

text \<open>
  \<^verbatim>\<open>
  def __init__(self, msg: str, logger: 'logging.Logger' = None):
      self._msg = msg
      self._logger = logger
      self.duration = 0
  \<close>
  The attribute \<^verbatim>\<open>start\<close> does not exist before \<^verbatim>\<open>__enter__\<close> has run.
\<close>

record 't TimeContext =
  msg :: string
  logger :: "pylogger option"
  duration :: 't
  start :: "'t option"

definition TimeContext_init :: "string \<Rightarrow> pylogger option \<Rightarrow> 't::zero TimeContext" where
  "TimeContext_init m lg = \<lparr>msg = m, logger = lg, duration = 0, start = None\<rparr>"

text \<open>
  \<^verbatim>\<open>
  def __enter__(self):
      self.start = time.perf_counter()
      if not self._logger:
          print(self._msg, end=' ...\t', flush=True)
      return self
  \<close>
\<close>

definition TimeContext_enter ::
  "'t \<Rightarrow> 't TimeContext \<times> world \<Rightarrow> (pyval, 't TimeContext \<times> world) outcome" where
  "TimeContext_enter t cw =
     (let c = (fst cw)\<lparr>start := Some t\<rparr>; w = snd cw
      in Return PySelf
           (c, if logger c = None then emit (Print (msg c @ '' ...'' @ [CHR 0x09])) w else w))"

text \<open>
  \<^verbatim>\<open>
  def __exit__(self, typ, value, traceback):
      self.duration = time.perf_counter() - self.start
      if self._logger:
          self._logger.info('%s takes %3.3f secs' % (self._msg, self.duration))
      else:
          print(colored('    [%3.3f secs]' % self.duration, 'green'), flush=True)
  \<close>
  The exception arguments are not used, and the method returns \<^verbatim>\<open>None\<close>.
  \<^verbatim>\<open>print\<close> ends the line.
\<close>

definition TimeContext_exit ::
  "'t::minus pylib \<Rightarrow> 't \<Rightarrow> 't TimeContext \<times> world \<Rightarrow> (pyval, 't TimeContext \<times> world) outcome" where
  "TimeContext_exit lib t cw =
     (case start (fst cw) of
        None \<Rightarrow> Raise AttributeError cw
      | Some t0 \<Rightarrow>
          (let c = (fst cw)\<lparr>duration := t - t0\<rparr>; w = snd cw
           in case logger c of
                Some lg \<Rightarrow>
                  Return PyNone
                    (c, emit (Log lg INFO
                          (msg c @ '' takes '' @ fmt_float lib ''%3.3f'' (duration c) @ '' secs'')) w)
              | None \<Rightarrow>
                  Return PyNone
                    (c, emit (Print
                          (colored lib (''    ['' @ fmt_float lib ''%3.3f'' (duration c) @ '' secs]'')
                             ''green'' @ [CHR 0x0A])) w)))"

text \<open>
  The \<^verbatim>\<open>with\<close> statement of Python: \<^verbatim>\<open>__enter__\<close>, then the block, then
  \<^verbatim>\<open>__exit__\<close>. When the block raises, the exception is raised again after
  \<^verbatim>\<open>__exit__\<close> unless \<^verbatim>\<open>__exit__\<close> returns a truthy value.
\<close>

definition with_stmt ::
  "('s \<Rightarrow> (pyval, 's) outcome) \<Rightarrow> ('s \<Rightarrow> (pyval, 's) outcome) \<Rightarrow> ('s \<Rightarrow> (unit, 's) outcome) \<Rightarrow>
     's \<Rightarrow> (unit, 's) outcome" where
  "with_stmt enter exit block s =
     (case enter s of
        Raise e s1 \<Rightarrow> Raise e s1
      | Return v s1 \<Rightarrow>
          (case block s1 of
             Return r s2 \<Rightarrow>
               (case exit s2 of Raise e s3 \<Rightarrow> Raise e s3 | Return x s3 \<Rightarrow> Return () s3)
           | Raise e s2 \<Rightarrow>
               (case exit s2 of
                  Raise e' s3 \<Rightarrow> Raise e' s3
                | Return x s3 \<Rightarrow> if truthy x then Return () s3 else Raise e s3)))"

text \<open>A guarded block acts on the world; it does not assign the timer's attributes.\<close>

definition guarded ::
  "(world \<Rightarrow> (unit, world) outcome) \<Rightarrow> 't TimeContext \<times> world \<Rightarrow> (unit, 't TimeContext \<times> world) outcome" where
  "guarded block cw =
     (case block (snd cw) of
        Return r w \<Rightarrow> Return r (fst cw, w)
      | Raise e w \<Rightarrow> Raise e (fst cw, w))"

text \<open>\<^verbatim>\<open>with TimeContext(msg, logger): block\<close>, entered at \<open>t0\<close> and left at \<open>t1\<close>.\<close>

definition TimeContext_with ::
  "'t::{zero,minus} pylib \<Rightarrow> string \<Rightarrow> pylogger option \<Rightarrow> 't \<Rightarrow> 't \<Rightarrow>
     (world \<Rightarrow> (unit, world) outcome) \<Rightarrow> world \<Rightarrow> (unit, 't TimeContext \<times> world) outcome" where
  "TimeContext_with lib m lg t0 t1 block w =
     with_stmt (TimeContext_enter t0) (TimeContext_exit lib t1) (guarded block)
       (TimeContext_init m lg, w)"

text \<open>The report of a duration \<open>d\<close> by a timer with label \<open>m\<close> and logger \<open>lg\<close>.\<close>

definition report :: "'t pylib \<Rightarrow> string \<Rightarrow> pylogger option \<Rightarrow> 't \<Rightarrow> event" where
  "report lib m lg d =
     (case lg of
        Some l \<Rightarrow> Log l INFO (m @ '' takes '' @ fmt_float lib ''%3.3f'' d @ '' secs'')
      | None \<Rightarrow> Print (colored lib (''    ['' @ fmt_float lib ''%3.3f'' d @ '' secs]'') ''green''
                   @ [CHR 0x0A]))"

text \<open>The world in which the guarded block starts: \<^verbatim>\<open>__enter__\<close> has shown the
  label on the console when the timer has no logger.\<close>

definition entered :: "string \<Rightarrow> pylogger option \<Rightarrow> world \<Rightarrow> world" where
  "entered m lg w = (if lg = None then emit (Print (m @ '' ...'' @ [CHR 0x09])) w else w)"

text \<open>The world in which the profiled branch calls the function: the first memory query
  has logged its warning when the platform has no \<^verbatim>\<open>resource\<close> module.\<close>

definition sampled :: "int option \<Rightarrow> world \<Rightarrow> world" where
  "sampled rss w =
     (case rss of None \<Rightarrow> emit (Log default_logger WARNING resource_warning) w | Some m \<Rightarrow> w)"

text \<open>An instance of the library functions over integer clock readings, for the
  examples: a formatted number is shown as its conversion specification, colouring
  leaves the text as it is, division is integer division.\<close>

definition example_lib :: "int pylib" where
  "example_lib = \<lparr>fmt_float = (\<lambda>spec x. spec), colored = (\<lambda>text color. text),
                   truediv = (\<lambda>a b. a div b)\<rparr>"

text \<open>Callables and two worlds for the examples: the functions \<open>example_succ\<close>, which
  returns its argument plus one, \<open>example_fail\<close>, which raises, and
  \<open>example_enable\<close>, which sets the profiling variable and returns its argument;
  \<open>example_partial\<close>, a callable without \<^verbatim>\<open>__qualname__\<close> that returns its
  argument plus one. In \<open>world_on\<close> the variable is set, in \<open>world_off\<close> it is not.\<close>

definition example_succ :: "(int, int) pyfunc" where
  "example_succ = \<lparr>qualname = Some ''succ'', body = (\<lambda>n w. Return (n + 1) w)\<rparr>"

definition example_fail :: "(int, int) pyfunc" where
  "example_fail = \<lparr>qualname = Some ''fail'', body = (\<lambda>n w. Raise (Exception ''boom'') w)\<rparr>"

definition example_partial :: "(int, int) pyfunc" where
  "example_partial = \<lparr>qualname = None, body = (\<lambda>n w. Return (n + 1) w)\<rparr>"

definition example_enable :: "(int, int) pyfunc" where
  "example_enable =
     \<lparr>qualname = Some ''enable'',
      body = (\<lambda>n w. Return n (w\<lparr>environ := (environ w)(''JINA_PROFILING'' \<mapsto> ''1'')\<rparr>))\<rparr>"

definition world_on :: world where
  "world_on = \<lparr>environ = [''JINA_PROFILING'' \<mapsto> ''1''], events = []\<rparr>"

definition world_off :: world where
  "world_off = \<lparr>environ = Map.empty, events = []\<rparr>"

section \<open>Properties of TimeDict\<close>

lemma TimeDict_begin_eq:
  "TimeDict_begin key t1 t2 s =
     Return PySelf
       (s\<lparr>key_stack := key_stack s @ [key],
          first_start_time := (if first_start_time s key = None
                               then (first_start_time s)(key \<mapsto> t1) else first_start_time s),
          start_time := (start_time s)(key \<mapsto> t2)\<rparr>)"
  by (simp add: TimeDict_begin_def TimeDict_enter_def TimeDict_call_def Let_def)

subsection \<open>What the methods do to the state\<close>

lemma dd_getitem_fst: "fst (dd_getitem d k) = (case d k of None \<Rightarrow> 0 | Some v \<Rightarrow> v)"
  by (simp add: dd_getitem_def split: option.split)

lemma dd_getitem_snd: "snd (dd_getitem d k) = (case d k of None \<Rightarrow> d(k \<mapsto> 0) | Some v \<Rightarrow> d)"
  by (simp add: dd_getitem_def split: option.split)

lemma TimeDict_exit_eq:
  "key_stack s \<noteq> [] \<Longrightarrow>
   TimeDict_exit t s =
     Return PyNone (if pending_reset s then TimeDict_reset (popped t s) else popped t s)"
  by (cases s)
    (simp add: TimeDict_exit_def popped_def Let_def dd_getitem_def split: option.split prod.split)

lemma TimeDict_exit_Return: "TimeDict_exit t s = Return v s' \<Longrightarrow> key_stack s \<noteq> []"
  by (auto simp: TimeDict_exit_def split: if_splits)

lemma popped_simps:
  "key_stack (popped t s) = butlast (key_stack s)"
  "pending_reset (popped t s) = pending_reset s"
  "first_start_time (popped t s) = first_start_time s"
  "end_time (popped t s) = (end_time s)(last (key_stack s) \<mapsto> t)"
  "accum_time (popped t s) =
     (accum_time s)(last (key_stack s) \<mapsto>
        fst (dd_getitem (accum_time s) (last (key_stack s))) +
        (t - fst (dd_getitem (start_time s) (last (key_stack s)))))"
  "start_time (popped t s) = snd (dd_getitem (start_time s) (last (key_stack s)))"
  by (simp_all add: popped_def Let_def)

lemma cleared_reset: "key_stack s = [] \<Longrightarrow> cleared (TimeDict_reset s)"
  by (simp add: cleared_def TimeDict_reset_def)

lemma reset_deferred: "key_stack s \<noteq> [] \<Longrightarrow> TimeDict_reset s = s\<lparr>pending_reset := True\<rparr>"
  by (simp add: TimeDict_reset_def)

lemma reset_pending: "pending_reset (TimeDict_reset s) \<longleftrightarrow> key_stack s \<noteq> []"
  by (simp add: TimeDict_reset_def)

lemma reset_stack: "key_stack (TimeDict_reset s) = key_stack s"
  by (simp add: TimeDict_reset_def)

lemma pending_step:
  assumes "step x s = Return v s'" and "pending_reset s'"
  shows "key_stack s' \<noteq> []"
proof (cases x)
  case (Begin k t1 t2)
  with assms show ?thesis by (auto simp: TimeDict_begin_eq)
next
  case (End t)
  with assms have ne: "key_stack s \<noteq> []" by (auto dest: TimeDict_exit_Return)
  show ?thesis
  proof (cases "pending_reset s")
    case True
    with assms End ne show ?thesis
      by (auto simp: TimeDict_exit_eq reset_pending reset_stack)
  next
    case False
    with assms End ne show ?thesis by (auto simp: TimeDict_exit_eq popped_simps)
  qed
next
  case RequestReset
  with assms show ?thesis by (auto simp: reset_pending reset_stack)
qed

subsection \<open>Deferred reset\<close>

text \<open>
  Claim C1. At every state of the accumulator, hence at every point of every sequence
  of operations: a reset requested while the key stack is non-empty changes nothing
  but the pending flag, which it sets; a reset requested on an empty stack clears the
  four mappings and the stack and leaves the flag false; an end that pops the last open
  key while a reset is pending does the same full reset; an end that leaves keys open
  while a reset is pending keeps the reset pending and removes no entry of any
  mapping; and no operation ever leaves a reset pending on an empty stack.
\<close>

theorem reset_is_deferred_until_stack_empty:
  fixes s :: "'t::{zero,plus,minus} TimeDict"
  shows "(key_stack s \<noteq> [] \<longrightarrow> TimeDict_reset s = s\<lparr>pending_reset := True\<rparr>)
    \<and> (key_stack s = [] \<longrightarrow> cleared (TimeDict_reset s))
    \<and> (pending_reset s \<and> length (key_stack s) = 1 \<longrightarrow>
          (\<exists>s'. TimeDict_exit t s = Return PyNone s' \<and> cleared s'))
    \<and> (pending_reset s \<and> length (key_stack s) > 1 \<longrightarrow>
          (\<exists>s'. TimeDict_exit t s = Return PyNone s' \<and> pending_reset s' \<and>
             key_stack s' = butlast (key_stack s) \<and>
             dom (accum_time s) \<subseteq> dom (accum_time s') \<and>
             dom (start_time s) \<subseteq> dom (start_time s') \<and>
             dom (end_time s) \<subseteq> dom (end_time s') \<and>
             first_start_time s' = first_start_time s))
    \<and> (step x s = Return v s1 \<and> pending_reset s1 \<longrightarrow> key_stack s1 \<noteq> [])"
proof (intro conjI impI)
  assume "key_stack s \<noteq> []"
  then show "TimeDict_reset s = s\<lparr>pending_reset := True\<rparr>" by (rule reset_deferred)
next
  assume "key_stack s = []"
  then show "cleared (TimeDict_reset s)" by (rule cleared_reset)
next
  assume a: "pending_reset s \<and> length (key_stack s) = 1"
  then have ne: "key_stack s \<noteq> []" by auto
  from a have "key_stack (popped t s) = []"
    by (cases "key_stack s") (auto simp: popped_simps)
  then have "cleared (TimeDict_reset (popped t s))" by (rule cleared_reset)
  with a ne show "\<exists>s'. TimeDict_exit t s = Return PyNone s' \<and> cleared s'"
    by (simp add: TimeDict_exit_eq)
next
  assume a: "pending_reset s \<and> length (key_stack s) > 1"
  then have ne: "key_stack s \<noteq> []" by auto
  from a have ne': "key_stack (popped t s) \<noteq> []"
    by (cases "key_stack s" rule: rev_cases) (auto simp: popped_simps)
  have "TimeDict_exit t s = Return PyNone ((popped t s)\<lparr>pending_reset := True\<rparr>)"
    using a ne reset_deferred[OF ne'] by (simp add: TimeDict_exit_eq)
  then show "\<exists>s'. TimeDict_exit t s = Return PyNone s' \<and> pending_reset s' \<and>
             key_stack s' = butlast (key_stack s) \<and>
             dom (accum_time s) \<subseteq> dom (accum_time s') \<and>
             dom (start_time s) \<subseteq> dom (start_time s') \<and>
             dom (end_time s) \<subseteq> dom (end_time s') \<and>
             first_start_time s' = first_start_time s"
    by (auto simp: popped_simps dd_getitem_snd split: option.splits)
next
  assume "step x s = Return v s1 \<and> pending_reset s1"
  then show "key_stack s1 \<noteq> []" by (auto dest: pending_step)
qed

theorem reset_is_deferred_until_stack_empty_witness:
  "(\<exists>s. run [Begin ''a'' 1 2, RequestReset] (TimeDict_init :: int TimeDict) = Return PyNone s \<and>
        key_stack s = [''a''] \<and> pending_reset s \<and> start_time s ''a'' = Some 2 \<and>
        (\<exists>s'. TimeDict_exit 7 s = Return PyNone s' \<and> cleared s'))
   \<and> cleared (TimeDict_reset (TimeDict_init :: int TimeDict))
   \<and> (\<exists>s. run [Begin ''a'' 1 2, Begin ''b'' 3 4, RequestReset] (TimeDict_init :: int TimeDict)
             = Return PyNone s \<and>
        key_stack s = [''a'', ''b''] \<and> pending_reset s \<and>
        (\<exists>s'. TimeDict_exit 7 s = Return PyNone s' \<and> pending_reset s' \<and>
           key_stack s' = [''a''] \<and> first_start_time s' = first_start_time s))"
proof -
  let ?s1 = "\<lparr>accum_time = Map.empty, first_start_time = [''a'' \<mapsto> 1], start_time = [''a'' \<mapsto> 2],
              end_time = Map.empty, key_stack = [''a''], pending_reset = True\<rparr> :: int TimeDict"
  let ?s2 = "\<lparr>accum_time = Map.empty, first_start_time = [''a'' \<mapsto> 1, ''b'' \<mapsto> 3],
              start_time = [''a'' \<mapsto> 2, ''b'' \<mapsto> 4],
              end_time = Map.empty, key_stack = [''a'', ''b''], pending_reset = True\<rparr> :: int TimeDict"
  have r1: "run [Begin ''a'' 1 2, RequestReset] (TimeDict_init :: int TimeDict) = Return PyNone ?s1"
    by (simp add: TimeDict_begin_eq TimeDict_init_def TimeDict_reset_def)
  have r2: "run [Begin ''a'' 1 2, Begin ''b'' 3 4, RequestReset] (TimeDict_init :: int TimeDict)
              = Return PyNone ?s2"
    by (simp add: TimeDict_begin_eq TimeDict_init_def TimeDict_reset_def)
  have e: "key_stack (TimeDict_init :: int TimeDict) = []" by (simp add: TimeDict_init_def)
  from reset_is_deferred_until_stack_empty[of ?s1 7 RequestReset PyNone ?s1]
  have a: "\<exists>s'. TimeDict_exit 7 ?s1 = Return PyNone s' \<and> cleared s'" by simp
  from reset_is_deferred_until_stack_empty[of "TimeDict_init :: int TimeDict" 7 RequestReset PyNone ?s1] e
  have b: "cleared (TimeDict_reset (TimeDict_init :: int TimeDict))" by simp
  from reset_is_deferred_until_stack_empty[of ?s2 7 RequestReset PyNone ?s2]
  have c: "\<exists>s'. TimeDict_exit 7 ?s2 = Return PyNone s' \<and> pending_reset s' \<and>
           key_stack s' = [''a''] \<and> first_start_time s' = first_start_time ?s2" by auto
  from a b c show ?thesis unfolding r1 r2 by simp
qed

subsection \<open>Stack underflow\<close>

text \<open>
  Claim C6. \<^verbatim>\<open>__exit__\<close> on an accumulator whose key stack is empty raises
  \<^verbatim>\<open>IndexError\<close>, and the accumulator is then in the state it was in before the
  call: no mapping entry, the stack and the pending flag included, has changed.
\<close>

theorem exit_on_empty_stack_raises:
  "key_stack s = [] \<Longrightarrow> TimeDict_exit t s = Raise IndexError s"
  by (simp add: TimeDict_exit_def)

theorem exit_on_empty_stack_raises_witness:
  "key_stack (TimeDict_init :: int TimeDict) = [] \<and>
   TimeDict_exit 5 (TimeDict_init :: int TimeDict) = Raise IndexError TimeDict_init \<and>
   run [Begin ''a'' 1 2, End 3, End 4] (TimeDict_init :: int TimeDict) =
     Raise IndexError \<lparr>accum_time = [''a'' \<mapsto> 1], first_start_time = [''a'' \<mapsto> 1],
       start_time = [''a'' \<mapsto> 2], end_time = [''a'' \<mapsto> 3], key_stack = [], pending_reset = False\<rparr>"
proof -
  let ?s = "\<lparr>accum_time = [''a'' \<mapsto> 1], first_start_time = [''a'' \<mapsto> 1],
       start_time = [''a'' \<mapsto> 2], end_time = [''a'' \<mapsto> 3], key_stack = [],
       pending_reset = False\<rparr> :: int TimeDict"
  have e: "key_stack (TimeDict_init :: int TimeDict) = []" by (simp add: TimeDict_init_def)
  have r: "run [Begin ''a'' 1 2, End 3] (TimeDict_init :: int TimeDict) = Return PyNone ?s"
    by (simp add: TimeDict_begin_eq TimeDict_init_def TimeDict_exit_eq popped_def Let_def dd_getitem_def)
  have "TimeDict_exit 4 ?s = Raise IndexError ?s"
    by (rule exit_on_empty_stack_raises) simp
  then have "run [Begin ''a'' 1 2, End 3, End 4] (TimeDict_init :: int TimeDict) = Raise IndexError ?s"
    by (simp add: TimeDict_begin_eq TimeDict_init_def TimeDict_exit_eq popped_def Let_def dd_getitem_def)
  with e exit_on_empty_stack_raises[OF e, of 5] show ?thesis by simp
qed


subsection \<open>The first start of a key\<close>

lemma first_start_step:
  assumes "first_start_time s k = Some v" and "step x s = Return r s'"
  shows "first_start_time s' k = Some v \<or> cleared s'"
proof (cases x)
  case (Begin j t1 t2)
  with assms show ?thesis by (auto simp: TimeDict_begin_eq)
next
  case (End t)
  with assms have ne: "key_stack s \<noteq> []" by (auto dest: TimeDict_exit_Return)
  show ?thesis
  proof (cases "pending_reset s \<and> key_stack (popped t s) = []")
    case True
    then have "cleared (TimeDict_reset (popped t s))" by (simp add: cleared_reset)
    with True assms End ne show ?thesis by (simp add: TimeDict_exit_eq)
  next
    case False
    with assms End ne show ?thesis
      by (auto simp: TimeDict_exit_eq popped_simps reset_deferred split: if_splits)
  qed
next
  case RequestReset
  with assms show ?thesis
    by (cases "key_stack s = []") (auto simp: cleared_reset reset_deferred)
qed

lemma no_request_step:
  assumes "\<not> pending_reset s" and "x \<noteq> RequestReset" and "step x s = Return r s'"
  shows "\<not> pending_reset s'"
    and "first_start_time s k = Some v \<Longrightarrow> first_start_time s' k = Some v"
proof -
  have "\<not> pending_reset s' \<and> (first_start_time s k = Some v \<longrightarrow> first_start_time s' k = Some v)"
  proof (cases x)
    case (Begin j t1 t2)
    with assms show ?thesis by (auto simp: TimeDict_begin_eq)
  next
    case (End t)
    with assms have ne: "key_stack s \<noteq> []" by (auto dest: TimeDict_exit_Return)
    with assms End show ?thesis by (auto simp: TimeDict_exit_eq popped_simps)
  next
    case RequestReset
    with assms show ?thesis by simp
  qed
  then show "\<not> pending_reset s'"
    and "first_start_time s k = Some v \<Longrightarrow> first_start_time s' k = Some v"
    by simp_all
qed

lemma first_start_run:
  "\<not> pending_reset s \<Longrightarrow> RequestReset \<notin> set xs \<Longrightarrow> run xs s = Return r s' \<Longrightarrow>
   first_start_time s k = Some v \<Longrightarrow> first_start_time s' k = Some v"
proof (induction xs arbitrary: s)
  case Nil
  then show ?case by simp
next
  case (Cons x xs)
  from Cons.prems obtain r1 s1 where st: "step x s = Return r1 s1" and rn: "run xs s1 = Return r s'"
    by (auto split: outcome.splits)
  from Cons.prems have nr: "x \<noteq> RequestReset" and nrs: "RequestReset \<notin> set xs" by auto
  from no_request_step[OF Cons.prems(1) nr st] Cons.prems(4)
  have np: "\<not> pending_reset s1" and fs: "first_start_time s1 k = Some v" by simp_all
  from np nrs rn fs show ?case by (rule Cons.IH)
qed

text \<open>
  Claim C5. A begin of a key that has no first start records the first clock reading of
  the call as its first start; a begin of a key that has one leaves it as it is, while
  the start of the key is overwritten by every begin. No single operation changes a
  recorded first start unless it performs the full reset, and no sequence of begins and
  ends without a reset request changes it.
\<close>

theorem first_start_is_write_once:
  fixes s :: "'t::{zero,plus,minus} TimeDict"
  shows "(first_start_time s k = None \<longrightarrow>
            first_start_time (state_of (TimeDict_begin k t1 t2 s)) k = Some t1)
    \<and> (first_start_time s k \<noteq> None \<longrightarrow>
            first_start_time (state_of (TimeDict_begin k t1 t2 s)) k = first_start_time s k)
    \<and> start_time (state_of (TimeDict_begin k t1 t2 s)) k = Some t2
    \<and> (first_start_time s k = Some v \<and> step x s = Return r1 s1 \<longrightarrow>
            first_start_time s1 k = Some v \<or> cleared s1)
    \<and> (first_start_time s k = Some v \<and> \<not> pending_reset s \<and> RequestReset \<notin> set xs \<and>
          run xs s = Return r2 s2 \<longrightarrow> first_start_time s2 k = Some v)"
  using first_start_step[of s k v x r1 s1] first_start_run[of s xs r2 s2 k v]
  by (simp add: TimeDict_begin_eq)

theorem first_start_is_write_once_witness:
  "first_start_time (state_of (TimeDict_begin ''a'' 1 2 (TimeDict_init :: int TimeDict))) ''a'' = Some 1
   \<and> (\<exists>s. TimeDict_begin ''a'' 1 2 (TimeDict_init :: int TimeDict) = Return PySelf s \<and>
         first_start_time s ''a'' = Some 1 \<and> start_time s ''a'' = Some 2 \<and>
         first_start_time (state_of (TimeDict_begin ''a'' 8 9 s)) ''a'' = Some 1 \<and>
         start_time (state_of (TimeDict_begin ''a'' 8 9 s)) ''a'' = Some 9 \<and>
         (\<exists>s'. run [End 5, Begin ''a'' 6 7] s = Return PyNone s' \<and>
            first_start_time s' ''a'' = Some 1 \<and> start_time s' ''a'' = Some 7))"
proof -
  let ?s = "\<lparr>accum_time = Map.empty, first_start_time = [''a'' \<mapsto> 1], start_time = [''a'' \<mapsto> 2],
              end_time = Map.empty, key_stack = [''a''], pending_reset = False\<rparr> :: int TimeDict"
  let ?s' = "\<lparr>accum_time = [''a'' \<mapsto> 3], first_start_time = [''a'' \<mapsto> 1],
               start_time = [''a'' \<mapsto> 7], end_time = [''a'' \<mapsto> 5], key_stack = [''a''],
               pending_reset = False\<rparr> :: int TimeDict"
  have b: "TimeDict_begin ''a'' 1 2 (TimeDict_init :: int TimeDict) = Return PySelf ?s"
    by (simp add: TimeDict_begin_eq TimeDict_init_def)
  have r: "run [End 5, Begin ''a'' 6 7] ?s = Return PyNone ?s'"
    by (simp add: TimeDict_begin_eq TimeDict_exit_eq popped_def Let_def dd_getitem_def)
  have n: "first_start_time (TimeDict_init :: int TimeDict) ''a'' = None"
    by (simp add: TimeDict_init_def)
  from first_start_is_write_once
         [of "TimeDict_init :: int TimeDict" "''a''" 1 2 0 RequestReset PyNone TimeDict_init "[]" PyNone
            TimeDict_init] n
  have w1: "first_start_time (state_of (TimeDict_begin ''a'' 1 2 (TimeDict_init :: int TimeDict))) ''a''
              = Some 1"
    by simp
  from first_start_is_write_once
         [of ?s "''a''" 8 9 1 "End 5" PyNone "\<lparr>accum_time = [''a'' \<mapsto> 3],
               first_start_time = [''a'' \<mapsto> 1], start_time = [''a'' \<mapsto> 2],
               end_time = [''a'' \<mapsto> 5], key_stack = [], pending_reset = False\<rparr>"
             "[End 5, Begin ''a'' 6 7]" PyNone ?s'] r
  have w2: "first_start_time (state_of (TimeDict_begin ''a'' 8 9 ?s)) ''a'' = Some 1 \<and>
            start_time (state_of (TimeDict_begin ''a'' 8 9 ?s)) ''a'' = Some 9 \<and>
            first_start_time ?s' ''a'' = Some 1"
    by simp
  have g: "TimeDict_begin ''a'' 1 2 (TimeDict_init :: int TimeDict) = Return PySelf ?s \<and>
         first_start_time ?s ''a'' = Some 1 \<and> start_time ?s ''a'' = Some 2 \<and>
         first_start_time (state_of (TimeDict_begin ''a'' 8 9 ?s)) ''a'' = Some 1 \<and>
         start_time (state_of (TimeDict_begin ''a'' 8 9 ?s)) ''a'' = Some 9 \<and>
         (\<exists>s'. run [End 5, Begin ''a'' 6 7] ?s = Return PyNone s' \<and>
            first_start_time s' ''a'' = Some 1 \<and> start_time s' ''a'' = Some 7)"
    unfolding r using b w2 by simp
  from w1 g show ?thesis by blast
qed

subsection \<open>Frame of begin and end\<close>

lemma started_init: "started TimeDict_init"
  by (simp add: started_def TimeDict_init_def)

lemma started_reset: "started s \<Longrightarrow> started (TimeDict_reset s)"
  by (simp add: started_def TimeDict_reset_def)

lemma started_popped: "started s \<Longrightarrow> started (popped t s)"
  by (auto simp: started_def popped_simps dd_getitem_snd dest: in_set_butlastD split: option.splits)

lemma started_step:
  assumes "started s" and "step x s = Return v s'"
  shows "started s'"
proof (cases x)
  case (Begin k t1 t2)
  with assms show ?thesis by (auto simp: TimeDict_begin_eq started_def)
next
  case (End t)
  with assms have ne: "key_stack s \<noteq> []" by (auto dest: TimeDict_exit_Return)
  with assms End show ?thesis
    by (auto simp: TimeDict_exit_eq started_popped started_reset split: if_splits)
next
  case RequestReset
  with assms show ?thesis by (auto simp: started_reset)
qed

lemma started_run: "started s \<Longrightarrow> run xs s = Return v s' \<Longrightarrow> started s'"
proof (induction xs arbitrary: s)
  case Nil
  then show ?case by simp
next
  case (Cons x xs)
  then show ?case by (auto split: outcome.splits dest: started_step)
qed

lemma exit_frame:
  assumes ne: "key_stack s \<noteq> []" and st: "start_time s (last (key_stack s)) = Some b"
    and np: "\<not> (pending_reset s \<and> butlast (key_stack s) = [])"
  shows "TimeDict_exit t s =
     Return PyNone
       (s\<lparr>key_stack := butlast (key_stack s),
          end_time := (end_time s)(last (key_stack s) \<mapsto> t),
          accum_time := (accum_time s)(last (key_stack s) \<mapsto>
             (case accum_time s (last (key_stack s)) of None \<Rightarrow> 0 | Some a \<Rightarrow> a) + (t - b))\<rparr>)"
proof (cases "pending_reset s")
  case False
  with ne st show ?thesis
    by (cases s) (simp add: TimeDict_exit_eq popped_def Let_def dd_getitem_def split: option.split)
next
  case True
  with np have "key_stack (popped t s) \<noteq> []" by (simp add: popped_simps)
  then have "TimeDict_reset (popped t s) = (popped t s)\<lparr>pending_reset := True\<rparr>"
    by (rule reset_deferred)
  with True ne st show ?thesis
    by (cases s) (simp add: TimeDict_exit_eq popped_def Let_def dd_getitem_def split: option.split)
qed

text \<open>Outside those states, where a key was pushed by a bare call and never entered,
  the \<^verbatim>\<open>defaultdict\<close> read of \<^verbatim>\<open>__exit__\<close> adds a start of \<open>0\<close> for the key.\<close>

lemma exit_defaults_missing_start:
  "key_stack s \<noteq> [] \<Longrightarrow> start_time s (last (key_stack s)) = None \<Longrightarrow> \<not> pending_reset s \<Longrightarrow>
   start_time (state_of (TimeDict_exit t s)) (last (key_stack s)) = Some 0"
  by (simp add: TimeDict_exit_eq popped_simps dd_getitem_snd)

text \<open>
  Claim C9. Let \<open>s\<close> be a state the accumulator reaches from its construction by begins,
  ends and reset requests. A begin of \<open>k\<close> returns and changes only the key stack, the
  start of \<open>k\<close> and, when \<open>k\<close> has none, the first start of \<open>k\<close>. An end that pops \<open>k\<close>
  and does not trigger the pending reset returns and changes only the key stack, the end
  of \<open>k\<close> and the accumulated time of \<open>k\<close>. In both cases the four entries of every
  other key \<open>j\<close> are as before.
\<close>

theorem begin_end_frame:
  fixes s :: "'t::{zero,plus,minus} TimeDict"
  assumes reach: "run ops TimeDict_init = Return v s"
  shows "(\<exists>s'. TimeDict_begin k t1 t2 s = Return PySelf s' \<and>
            s' = s\<lparr>key_stack := key_stack s @ [k],
                   start_time := (start_time s)(k \<mapsto> t2),
                   first_start_time := (if first_start_time s k = None
                      then (first_start_time s)(k \<mapsto> t1) else first_start_time s)\<rparr> \<and>
            (\<forall>j. j \<noteq> k \<longrightarrow> accum_time s' j = accum_time s j \<and>
               first_start_time s' j = first_start_time s j \<and>
               start_time s' j = start_time s j \<and> end_time s' j = end_time s j))
    \<and> (key_stack s \<noteq> [] \<and> last (key_stack s) = k \<and>
         \<not> (pending_reset s \<and> butlast (key_stack s) = []) \<longrightarrow>
         (\<exists>s' a. TimeDict_exit t s = Return PyNone s' \<and>
            s' = s\<lparr>key_stack := butlast (key_stack s),
                   end_time := (end_time s)(k \<mapsto> t),
                   accum_time := (accum_time s)(k \<mapsto> a)\<rparr> \<and>
            (\<forall>j. j \<noteq> k \<longrightarrow> accum_time s' j = accum_time s j \<and>
               first_start_time s' j = first_start_time s j \<and>
               start_time s' j = start_time s j \<and> end_time s' j = end_time s j)))"
proof (intro conjI impI)
  show "\<exists>s'. TimeDict_begin k t1 t2 s = Return PySelf s' \<and>
            s' = s\<lparr>key_stack := key_stack s @ [k],
                   start_time := (start_time s)(k \<mapsto> t2),
                   first_start_time := (if first_start_time s k = None
                      then (first_start_time s)(k \<mapsto> t1) else first_start_time s)\<rparr> \<and>
            (\<forall>j. j \<noteq> k \<longrightarrow> accum_time s' j = accum_time s j \<and>
               first_start_time s' j = first_start_time s j \<and>
               start_time s' j = start_time s j \<and> end_time s' j = end_time s j)"
    by (cases s) (simp add: TimeDict_begin_eq)
next
  assume a: "key_stack s \<noteq> [] \<and> last (key_stack s) = k \<and>
         \<not> (pending_reset s \<and> butlast (key_stack s) = [])"
  have "started s" using started_init reach by (rule started_run)
  from a have ne: "key_stack s \<noteq> []" and np: "\<not> (pending_reset s \<and> butlast (key_stack s) = [])"
    by simp_all
  from ne have "last (key_stack s) \<in> set (key_stack s)" by (rule last_in_set)
  with \<open>started s\<close> obtain b where b: "start_time s (last (key_stack s)) = Some b"
    unfolding started_def by blast
  from a exit_frame[OF ne b np, of t]
  show "\<exists>s' a. TimeDict_exit t s = Return PyNone s' \<and>
            s' = s\<lparr>key_stack := butlast (key_stack s),
                   end_time := (end_time s)(k \<mapsto> t),
                   accum_time := (accum_time s)(k \<mapsto> a)\<rparr> \<and>
            (\<forall>j. j \<noteq> k \<longrightarrow> accum_time s' j = accum_time s j \<and>
               first_start_time s' j = first_start_time s j \<and>
               start_time s' j = start_time s j \<and> end_time s' j = end_time s j)"
    by auto
qed

theorem begin_end_frame_witness:
  "\<exists>s. run [Begin ''a'' 1 2, Begin ''b'' 3 4] (TimeDict_init :: int TimeDict) = Return PyNone s \<and>
     key_stack s = [''a'', ''b''] \<and> \<not> pending_reset s \<and>
     (\<exists>s'. TimeDict_exit 9 s = Return PyNone s' \<and> key_stack s' = [''a''] \<and>
        start_time s' ''a'' = Some 2 \<and> first_start_time s' ''a'' = Some 1 \<and>
        end_time s' ''a'' = None \<and> accum_time s' ''a'' = None \<and>
        start_time s' = start_time s \<and> first_start_time s' = first_start_time s) \<and>
     (\<exists>s'. TimeDict_begin ''c'' 5 6 s = Return PySelf s' \<and>
        start_time s' ''a'' = Some 2 \<and> start_time s' ''b'' = Some 4 \<and>
        end_time s' = end_time s \<and> accum_time s' = accum_time s)"
proof -
  let ?s = "\<lparr>accum_time = Map.empty, first_start_time = [''a'' \<mapsto> 1, ''b'' \<mapsto> 3],
              start_time = [''a'' \<mapsto> 2, ''b'' \<mapsto> 4],
              end_time = Map.empty, key_stack = [''a'', ''b''], pending_reset = False\<rparr> :: int TimeDict"
  have r: "run [Begin ''a'' 1 2, Begin ''b'' 3 4] (TimeDict_init :: int TimeDict) = Return PyNone ?s"
    by (simp add: TimeDict_begin_eq TimeDict_init_def)
  from begin_end_frame[OF r, of "''b''" 5 6 9]
  have e: "\<exists>s'. TimeDict_exit 9 ?s = Return PyNone s' \<and> key_stack s' = [''a''] \<and>
        start_time s' ''a'' = Some 2 \<and> first_start_time s' ''a'' = Some 1 \<and>
        end_time s' ''a'' = None \<and> accum_time s' ''a'' = None \<and>
        start_time s' = start_time ?s \<and> first_start_time s' = first_start_time ?s"
    by auto
  from begin_end_frame[OF r, of "''c''" 5 6 9]
  have b: "\<exists>s'. TimeDict_begin ''c'' 5 6 ?s = Return PySelf s' \<and>
        start_time s' ''a'' = Some 2 \<and> start_time s' ''b'' = Some 4 \<and>
        end_time s' = end_time ?s \<and> accum_time s' = accum_time ?s"
    by auto
  from e b show ?thesis unfolding r by simp
qed

subsection \<open>Accumulated time is the sum of the measured intervals\<close>

lemma tracks_init: "tracks TimeDict_init [] []"
  by (simp add: tracks_def TimeDict_init_def)

lemma tracks_begin:
  "tracks s past opn \<Longrightarrow>
   tracks (s\<lparr>key_stack := key_stack s @ [j],
            first_start_time := f,
            start_time := (start_time s)(j \<mapsto> t2)\<rparr>) (Begin j t1 t2 # past) (j # opn)"
  by (auto simp: tracks_def fun_eq_iff)

lemma tracks_end:
  assumes "tracks s past (j # opn)"
  shows "tracks (popped t s) (End t # past) opn"
    and "accumulated (popped t s) k =
           (if j = k
            then accumulated s k + (t - (case last_start k past of Some b \<Rightarrow> b | None \<Rightarrow> 0))
            else accumulated s k)"
    and "last_start j past \<noteq> None"
  using assms
  by (auto simp: tracks_def popped_simps dd_getitem_fst dd_getitem_snd accumulated_def fun_eq_iff
      split: option.splits)

lemma accumulated_intervals:
  fixes s :: "'t::{zero,plus,minus} TimeDict"
  shows "tracks s past opn \<Longrightarrow> RequestReset \<notin> set xs \<Longrightarrow> run xs s = Return r s' \<Longrightarrow>
    accumulated s' k = foldl (+) (accumulated s k) (intervals k past opn xs)"
proof (induction k past opn xs arbitrary: s rule: intervals.induct)
  case (1 k past opn)
  then show ?case by simp
next
  case (2 k past opn j t1 t2 xs)
  let ?s1 = "s\<lparr>key_stack := key_stack s @ [j],
          first_start_time := (if first_start_time s j = None
                               then (first_start_time s)(j \<mapsto> t1) else first_start_time s),
          start_time := (start_time s)(j \<mapsto> t2)\<rparr>"
  from "2.prems" have rn: "run xs ?s1 = Return r s'" by (simp add: TimeDict_begin_eq)
  have tr: "tracks ?s1 (Begin j t1 t2 # past) (j # opn)"
    using "2.prems"(1) by (rule tracks_begin)
  have "accumulated ?s1 k = accumulated s k" by (simp add: accumulated_def)
  with "2.IH"[OF tr _ rn] "2.prems"(2) show ?case by simp
next
  case (3 k past j opn t xs)
  from "3.prems"(1) have ne: "key_stack s \<noteq> []" and np: "\<not> pending_reset s"
    by (auto simp: tracks_def)
  with "3.prems" have rn: "run xs (popped t s) = Return r s'"
    by (simp add: TimeDict_exit_eq)
  note te1 = tracks_end(1)[OF "3.prems"(1), of t]
  note te2 = tracks_end(2)[OF "3.prems"(1), of t k]
  note te3 = tracks_end(3)[OF "3.prems"(1)]
  from "3.IH"[OF te1 _ rn] "3.prems"(2)
  have "accumulated s' k = foldl (+) (accumulated (popped t s) k) (intervals k (End t # past) opn xs)"
    by simp
  with te2 te3 show ?case
    by (auto split: option.splits)
next
  case (4 k past t xs)
  then show ?case by (simp add: tracks_def TimeDict_exit_def)
next
  case (5 k past opn xs)
  then show ?case by simp
qed

text \<open>Where addition is associative with unit \<open>0\<close>, summing from the left starting at
  \<open>0\<close>, as \<^verbatim>\<open>+=\<close> does, gives the sum.\<close>

lemma foldl_plus_sum_list: "foldl (+) (a::'a::monoid_add) xs = a + sum_list xs"
  by (induction xs arbitrary: a) (simp_all add: add.assoc)

text \<open>Calls in strict LIFO order never fail: every one of them returns.\<close>

lemma exit_returns:
  "key_stack s \<noteq> [] \<Longrightarrow>
   \<exists>s'. TimeDict_exit t s = Return PyNone s' \<and> key_stack s' = butlast (key_stack s)"
  by (simp add: TimeDict_exit_eq reset_stack popped_simps)

lemma lifo_run_returns:
  fixes s :: "'t::{zero,plus,minus} TimeDict"
  shows "lifo (length (key_stack s)) xs \<Longrightarrow> \<exists>s'. run xs s = Return PyNone s'"
proof (induction xs arbitrary: s)
  case Nil
  then show ?case by simp
next
  case (Cons x xs)
  show ?case
  proof (cases x)
    case (Begin j t1 t2)
    let ?s1 = "s\<lparr>key_stack := key_stack s @ [j],
          first_start_time := (if first_start_time s j = None
                               then (first_start_time s)(j \<mapsto> t1) else first_start_time s),
          start_time := (start_time s)(j \<mapsto> t2)\<rparr>"
    from Cons.prems Begin have "lifo (length (key_stack ?s1)) xs" by simp
    then have "\<exists>s'. run xs ?s1 = Return PyNone s'" by (rule Cons.IH)
    with Begin show ?thesis by (simp add: TimeDict_begin_eq)
  next
    case (End t)
    with Cons.prems have ne: "key_stack s \<noteq> []" by (cases "key_stack s") auto
    from exit_returns[OF ne, of t] obtain s1 where
      ex: "TimeDict_exit t s = Return PyNone s1" and ks: "key_stack s1 = butlast (key_stack s)"
      by blast
    from ne obtain d where d: "length (key_stack s) = Suc d"
      by (cases "key_stack s") auto
    with ks have d1: "length (key_stack s1) = d" by simp
    from Cons.prems End d have "lifo d xs" by simp
    with d1 have "lifo (length (key_stack s1)) xs" by simp
    then have "\<exists>s'. run xs s1 = Return PyNone s'" by (rule Cons.IH)
    with End ex show ?thesis by simp
  next
    case RequestReset
    with Cons.prems have "lifo (length (key_stack (TimeDict_reset s))) xs"
      by (simp add: reset_stack)
    then have "\<exists>s'. run xs (TimeDict_reset s) = Return PyNone s'" by (rule Cons.IH)
    with RequestReset show ?thesis by simp
  qed
qed

text \<open>
  Claim C2. Let the calls \<open>xs\<close> be begins and ends only, in strict LIFO order: no end
  comes when no region is open. Made on a new accumulator, they all return, and in the
  state they leave, for every key \<open>k\<close>, \<^verbatim>\<open>accumulated[k]\<close> is the sum, taken from
  \<open>0\<close> in the order of the ends, of the intervals measured for \<open>k\<close>: one per completed
  pair of \<open>k\<close>, each the stop timestamp minus the most recent start timestamp recorded
  for \<open>k\<close>.
\<close>

theorem accumulated_is_sum_of_intervals:
  fixes xs :: "'t::{zero,plus,minus} op list"
  assumes "RequestReset \<notin> set xs" and "lifo 0 xs"
  shows "\<exists>s. run xs TimeDict_init = Return PyNone s \<and>
           accumulated s k = foldl (+) 0 (intervals k [] [] xs)"
proof -
  have "lifo (length (key_stack (TimeDict_init :: 't TimeDict))) xs"
    using assms(2) by (simp add: TimeDict_init_def)
  then obtain s where r: "run xs (TimeDict_init :: 't TimeDict) = Return PyNone s"
    using lifo_run_returns by blast
  from accumulated_intervals[OF tracks_init assms(1) r, of k]
  have "accumulated s k = foldl (+) 0 (intervals k [] [] xs)"
    by (simp add: accumulated_def TimeDict_init_def dd_getitem_def)
  with r show ?thesis by blast
qed

theorem accumulated_is_sum_of_intervals_witness:
  "RequestReset \<notin> set [Begin ''a'' 0 1, Begin ''b'' 2 3, End 5, End 9, Begin ''a'' 10 11, End 14 :: int op]
   \<and> lifo 0 [Begin ''a'' 0 1, Begin ''b'' 2 3, End 5, End 9, Begin ''a'' 10 11, End (14::int)]
   \<and> intervals ''a'' [] [] [Begin ''a'' 0 1, Begin ''b'' 2 3, End 5, End 9, Begin ''a'' 10 11, End (14::int)]
        = [8, 3]
   \<and> (\<exists>s. run [Begin ''a'' 0 1, Begin ''b'' 2 3, End 5, End 9, Begin ''a'' 10 11, End 14]
            (TimeDict_init :: int TimeDict) = Return PyNone s
          \<and> accumulated s ''a'' = 11 \<and> accum_time s ''a'' = Some 11 \<and> accum_time s ''b'' = Some 2)"
proof -
  let ?xs = "[Begin ''a'' 0 1, Begin ''b'' 2 3, End 5, End 9, Begin ''a'' 10 11, End 14 :: int op]"
  let ?s = "\<lparr>accum_time = [''b'' \<mapsto> 2, ''a'' \<mapsto> 11], first_start_time = [''a'' \<mapsto> 0, ''b'' \<mapsto> 2],
              start_time = [''a'' \<mapsto> 11, ''b'' \<mapsto> 3], end_time = [''b'' \<mapsto> 5, ''a'' \<mapsto> 14],
              key_stack = [], pending_reset = False\<rparr> :: int TimeDict"
  have n: "RequestReset \<notin> set ?xs" by simp
  have l: "lifo 0 ?xs" by simp
  have i: "intervals ''a'' [] [] ?xs = [8, 3]" by simp
  have r: "run ?xs (TimeDict_init :: int TimeDict) = Return PyNone ?s"
    by (simp add: TimeDict_begin_eq TimeDict_init_def TimeDict_exit_eq popped_def Let_def
        dd_getitem_def fun_upd_twist)
  from accumulated_is_sum_of_intervals[OF n l, of "''a''"]
  have a: "accumulated ?s ''a'' = 11" unfolding r i by simp
  have g: "run ?xs (TimeDict_init :: int TimeDict) = Return PyNone ?s \<and>
           accumulated ?s ''a'' = 11 \<and> accum_time ?s ''a'' = Some 11 \<and> accum_time ?s ''b'' = Some 2"
    using r a by simp
  from n l i g show ?thesis by blast
qed

section \<open>Properties of used_memory\<close>

text \<open>
  Claim C7. When the platform has no \<^verbatim>\<open>resource\<close> module, \<^verbatim>\<open>used_memory\<close>
  returns \<open>0\<close> and its only effect is one warning on \<^verbatim>\<open>default_logger\<close>, whatever
  the unit. When the module is there and the unit is not zero, it returns
  \<^verbatim>\<open>ru_maxrss / unit\<close> and has no effect. So for the positive units of its contract
  the call always returns.
\<close>

theorem used_memory_degrades_gracefully:
  "used_memory lib None unit w =
     Return 0 (w\<lparr>events := events w @ [Log default_logger WARNING resource_warning]\<rparr>)
   \<and> (unit \<noteq> 0 \<longrightarrow> used_memory lib (Some m) unit w = Return (truediv lib m unit) w)"
  by (simp add: used_memory_def emit_def)

theorem used_memory_degrades_gracefully_witness:
  "used_memory example_lib None (1024 * 1024 * 1024) world_off =
     Return 0 \<lparr>environ = Map.empty, events = [Log default_logger WARNING resource_warning]\<rparr>
   \<and> (1024 * 1024 * 1024 :: int) \<noteq> 0
   \<and> used_memory example_lib (Some (5 * 1024 * 1024 * 1024)) (1024 * 1024 * 1024) world_off =
       Return 5 world_off"
  using used_memory_degrades_gracefully
          [of example_lib "1024 * 1024 * 1024" world_off "5 * 1024 * 1024 * 1024"]
  by (simp add: world_off_def example_lib_def)

text \<open>A zero unit, which the contract excludes, is the one way the call raises.\<close>

lemma used_memory_zero_unit:
  "used_memory lib (Some m) 0 w = Raise ZeroDivisionError w"
  by (simp add: used_memory_def)

section \<open>Properties of profiling\<close>

lemma profiling_enabled_iff:
  "profiling_enabled w \<longleftrightarrow> (\<exists>v. environ w ''JINA_PROFILING'' = Some v \<and> v \<noteq> [])"
  by (simp add: profiling_enabled_def environ_get_def split: option.split)

lemma used_memory_mega:
  "unit \<noteq> 0 \<Longrightarrow> used_memory lib rss unit w =
     Return (case rss of None \<Rightarrow> 0 | Some m \<Rightarrow> truediv lib m unit) (sampled rss w)"
  by (simp add: used_memory_def sampled_def split: option.split)

lemma sampled_simps:
  "environ (sampled rss w) = environ w"
  "profile_lines (sampled rss w) = profile_lines w"
  by (simp_all add: sampled_def emit_def profile_lines_def split: option.split)

lemma profiled_call_Raise:
  "body func args (sampled rss0 w) = Raise e w2 \<Longrightarrow>
   profiled_call lib func t0 t1 rss0 rss1 args w = Raise e w2"
  by (simp add: profiled_call_def used_memory_mega)

lemma profiled_call_Return:
  "body func args (sampled rss0 w) = Return r w2 \<Longrightarrow> qualname func = Some qn \<Longrightarrow>
   \<exists>line. profiled_call lib func t0 t1 rss0 rss1 args w =
     Return r (emit (Log profile_logger INFO line) (sampled rss1 w2))"
  by (simp add: profiled_call_def used_memory_mega Let_def) (rule exI, rule refl)

text \<open>For a callable without \<^verbatim>\<open>__qualname__\<close> the measuring branch loses the value
  the callable returned: it raises \<^verbatim>\<open>AttributeError\<close> and logs no profiling
  record.\<close>

lemma profiled_call_no_qualname:
  "body func args (sampled rss0 w) = Return r w2 \<Longrightarrow> qualname func = None \<Longrightarrow>
   profiled_call lib func t0 t1 rss0 rss1 args w = Raise AttributeError (sampled rss1 w2)"
  by (simp add: profiled_call_def used_memory_mega Let_def)

text \<open>
  Claim C3. The wrapper that \<^verbatim>\<open>profiling\<close> returns does not depend on the world
  \<open>w0\<close> in which the function was decorated. Called in a world \<open>w\<close>, it takes the
  measuring branch when \<^verbatim>\<open>JINA_PROFILING\<close> is set in the environment of \<open>w\<close> to a
  non-empty string, and otherwise (unset, or set to the empty string) just calls the
  function.
\<close>

theorem toggle_is_read_at_each_call:
  "profiling_enabled w = (\<exists>v. environ w ''JINA_PROFILING'' = Some v \<and> v \<noteq> [])
   \<and> profiling lib w0 func t0 t1 rss0 rss1 args w =
       (if (\<exists>v. environ w ''JINA_PROFILING'' = Some v \<and> v \<noteq> [])
        then profiled_call lib func t0 t1 rss0 rss1 args w
        else body func args w)"
  by (simp add: profiling_def arg_wrapper_def profiling_enabled_iff)

text \<open>Two calls of one wrapper, decorated while the variable was set: the first, in a
  world where it is unset, is not measured and sets the variable; the second, in the
  world the first one left, is measured.\<close>

theorem toggle_is_read_at_each_call_witness:
  "\<exists>w1 w2 line.
     \<not> profiling_enabled world_off \<and>
     profiling example_lib world_on example_enable 0 1 (Some 5) (Some 5) 7 world_off = Return 7 w1 \<and>
     events w1 = [] \<and> profiling_enabled w1 \<and>
     profiling example_lib world_on example_enable 2 3 (Some 5) (Some 5) 7 w1 = Return 7 w2 \<and>
     events w2 = [Log profile_logger INFO line]"
proof -
  let ?w1 = "\<lparr>environ = [''JINA_PROFILING'' \<mapsto> ''1''], events = []\<rparr>"
  have off: "\<not> profiling_enabled world_off"
    using toggle_is_read_at_each_call
            [of world_off example_lib world_on example_enable 0 1 "Some 5" "Some 5" 7]
    by (simp add: world_off_def)
  have c1: "profiling example_lib world_on example_enable 0 1 (Some 5) (Some 5) 7 world_off
              = Return 7 ?w1"
    using toggle_is_read_at_each_call
            [of world_off example_lib world_on example_enable 0 1 "Some 5" "Some 5" 7]
    by (simp add: world_off_def example_enable_def)
  have on: "profiling_enabled ?w1"
    using toggle_is_read_at_each_call
            [of ?w1 example_lib world_on example_enable 2 3 "Some 5" "Some 5" 7]
    by simp
  have c2: "\<exists>line. profiling example_lib world_on example_enable 2 3 (Some 5) (Some 5) 7 ?w1
              = Return 7 (?w1\<lparr>events := [Log profile_logger INFO line]\<rparr>)"
    using toggle_is_read_at_each_call
            [of ?w1 example_lib world_on example_enable 2 3 "Some 5" "Some 5" 7]
    by (simp add: profiled_call_def used_memory_def emit_def example_enable_def)
  from off c1 on c2 show ?thesis by auto
qed

text \<open>
  Claim C4, as the code has it. With the toggle disabled the wrapped call is the call of
  the callable: same value or same exception, same effects, no profiling record. With
  the toggle enabled the callable is called in the world the first memory query leaves
  (the same environment and the same profiling records as before); when it raises, the
  wrapper raises the same exception from the state the callable left, and adds no
  profiling record; when it returns and has a \<^verbatim>\<open>__qualname__\<close>, as every function
  has, the wrapper returns the same value and adds exactly one record to the profiling
  logger, after those the callable made.
\<close>

theorem wrapper_is_transparent:
  fixes lib :: "'t::{zero,minus} pylib"
  shows "(\<not> profiling_enabled w \<longrightarrow>
            arg_wrapper lib func t0 t1 rss0 rss1 args w = body func args w)
    \<and> (profiling_enabled w \<longrightarrow>
          environ (sampled rss0 w) = environ w \<and>
          profile_lines (sampled rss0 w) = profile_lines w \<and>
          (case body func args (sampled rss0 w) of
             Raise e w2 \<Rightarrow> arg_wrapper lib func t0 t1 rss0 rss1 args w = Raise e w2
           | Return r w2 \<Rightarrow>
               (qualname func \<noteq> None \<longrightarrow>
                 (\<exists>w3 line. arg_wrapper lib func t0 t1 rss0 rss1 args w = Return r w3 \<and>
                    environ w3 = environ w2 \<and>
                    profile_lines w3 = profile_lines w2 @ [Log profile_logger INFO line]))))"
proof (intro conjI impI)
  assume "\<not> profiling_enabled w"
  then show "arg_wrapper lib func t0 t1 rss0 rss1 args w = body func args w"
    by (simp add: arg_wrapper_def)
next
  assume "profiling_enabled w"
  show "environ (sampled rss0 w) = environ w" by (rule sampled_simps)
next
  assume "profiling_enabled w"
  show "profile_lines (sampled rss0 w) = profile_lines w" by (rule sampled_simps)
next
  assume on: "profiling_enabled w"
  show "case body func args (sampled rss0 w) of
          Raise e w2 \<Rightarrow> arg_wrapper lib func t0 t1 rss0 rss1 args w = Raise e w2
        | Return r w2 \<Rightarrow>
            (qualname func \<noteq> None \<longrightarrow>
              (\<exists>w3 line. arg_wrapper lib func t0 t1 rss0 rss1 args w = Return r w3 \<and>
                 environ w3 = environ w2 \<and>
                 profile_lines w3 = profile_lines w2 @ [Log profile_logger INFO line]))"
  proof (cases "body func args (sampled rss0 w)")
    case (Raise e w2)
    with on show ?thesis by (simp add: arg_wrapper_def profiled_call_Raise)
  next
    case (Return r w2)
    have "\<exists>w3 line. arg_wrapper lib func t0 t1 rss0 rss1 args w = Return r w3 \<and>
             environ w3 = environ w2 \<and>
             profile_lines w3 = profile_lines w2 @ [Log profile_logger INFO line]"
      if q: "qualname func \<noteq> None"
    proof -
      from q obtain qn where qn: "qualname func = Some qn" by auto
      from profiled_call_Return[OF Return qn, of lib t0 t1 rss1] obtain line where
        "profiled_call lib func t0 t1 rss0 rss1 args w =
           Return r (emit (Log profile_logger INFO line) (sampled rss1 w2))" ..
      moreover have "environ (emit (Log profile_logger INFO line) (sampled rss1 w2)) = environ w2"
        by (simp add: emit_def sampled_simps)
      moreover have "profile_lines (emit (Log profile_logger INFO line) (sampled rss1 w2)) =
          profile_lines w2 @ [Log profile_logger INFO line]"
        using sampled_simps(2)[of rss1 w2] by (simp add: emit_def profile_lines_def)
      ultimately show ?thesis using on by (simp add: arg_wrapper_def)
    qed
    with Return show ?thesis by simp
  qed
qed

theorem wrapper_is_transparent_witness:
  "\<not> profiling_enabled world_off \<and> profiling_enabled world_on
   \<and> qualname example_succ \<noteq> None
   \<and> arg_wrapper example_lib example_succ 0 3 (Some 5) (Some 6) 1 world_off = Return 2 world_off
   \<and> arg_wrapper example_lib example_partial 0 3 (Some 5) (Some 6) 1 world_off = Return 2 world_off
   \<and> arg_wrapper example_lib example_fail 0 3 (Some 5) (Some 6) 1 world_off =
       Raise (Exception ''boom'') world_off
   \<and> arg_wrapper example_lib example_fail 0 3 (Some 5) (Some 6) 1 world_on =
       Raise (Exception ''boom'') world_on
   \<and> (\<exists>w3 line. arg_wrapper example_lib example_succ 0 3 (Some 5) (Some 6) 1 world_on = Return 2 w3 \<and>
         profile_lines w3 = [Log profile_logger INFO line])"
proof -
  have off: "\<not> profiling_enabled world_off" and on: "profiling_enabled world_on"
    by (simp_all add: profiling_enabled_iff world_off_def world_on_def)
  have q: "qualname example_succ \<noteq> None" by (simp add: example_succ_def)
  have s: "sampled (Some 5) world_on = world_on" by (simp add: sampled_def)
  have p: "profile_lines world_on = []" by (simp add: profile_lines_def world_on_def)
  from wrapper_is_transparent[of world_off example_lib example_succ 0 3 "Some 5" "Some 6" 1] off
  have a: "arg_wrapper example_lib example_succ 0 3 (Some 5) (Some 6) 1 world_off = Return 2 world_off"
    by (simp add: example_succ_def)
  from wrapper_is_transparent[of world_off example_lib example_partial 0 3 "Some 5" "Some 6" 1] off
  have a': "arg_wrapper example_lib example_partial 0 3 (Some 5) (Some 6) 1 world_off = Return 2 world_off"
    by (simp add: example_partial_def)
  from wrapper_is_transparent[of world_off example_lib example_fail 0 3 "Some 5" "Some 6" 1] off
  have b: "arg_wrapper example_lib example_fail 0 3 (Some 5) (Some 6) 1 world_off =
       Raise (Exception ''boom'') world_off"
    by (simp add: example_fail_def)
  from wrapper_is_transparent[of world_on example_lib example_fail 0 3 "Some 5" "Some 6" 1] on
  have c: "arg_wrapper example_lib example_fail 0 3 (Some 5) (Some 6) 1 world_on =
       Raise (Exception ''boom'') world_on"
    by (simp add: example_fail_def s)
  from wrapper_is_transparent[of world_on example_lib example_succ 0 3 "Some 5" "Some 6" 1] on
  have d: "\<exists>w3 line. arg_wrapper example_lib example_succ 0 3 (Some 5) (Some 6) 1 world_on = Return 2 w3 \<and>
         profile_lines w3 = [Log profile_logger INFO line]"
    by (auto simp: example_succ_def s p)
  from off on q a a' b c d show ?thesis by simp
qed

text \<open>The claim as the specification words it promises, for every callable, one profiling
  record for every enabled call and the value the callable returns. An enabled call in
  which the function raises has no record; and an enabled call of a callable without
  \<^verbatim>\<open>__qualname__\<close> raises \<^verbatim>\<open>AttributeError\<close> where the callable itself, and the
  wrapper with the toggle disabled, return a value.\<close>

theorem wrapper_claim_counterexample:
  "profiling_enabled world_on \<and>
   arg_wrapper example_lib example_fail 0 3 (Some 5) (Some 6) 1 world_on =
     Raise (Exception ''boom'') world_on \<and>
   length (profile_lines (state_of
      (arg_wrapper example_lib example_fail 0 3 (Some 5) (Some 6) 1 world_on))) \<noteq>
   length (profile_lines world_on) + 1 \<and>
   body example_partial 1 world_on = Return 2 world_on \<and>
   arg_wrapper example_lib example_partial 0 3 (Some 5) (Some 6) 1 world_on =
     Raise AttributeError world_on \<and>
   profile_lines world_on = []"
  by (simp add: arg_wrapper_def profiled_call_def used_memory_def profiling_enabled_iff
      example_fail_def example_partial_def world_on_def profile_lines_def)

section \<open>Properties of TimeContext\<close>

lemma TimeContext_enter_init:
  "TimeContext_enter t0 (TimeContext_init m lg, w) =
     Return PySelf (\<lparr>msg = m, logger = lg, duration = 0, start = Some t0\<rparr>, entered m lg w)"
  by (simp add: TimeContext_enter_def TimeContext_init_def entered_def Let_def)

lemma TimeContext_exit_started:
  "TimeContext_exit lib t1 (\<lparr>msg = m, logger = lg, duration = d, start = Some t0\<rparr>, w) =
     Return PyNone (\<lparr>msg = m, logger = lg, duration = t1 - t0, start = Some t0\<rparr>,
        emit (report lib m lg (t1 - t0)) w)"
  by (simp add: TimeContext_exit_def report_def Let_def split: option.split)

lemma TimeContext_with_eq:
  "TimeContext_with lib m lg t0 t1 block w =
     (case block (entered m lg w) of
        Return r w2 \<Rightarrow>
          Return () (\<lparr>msg = m, logger = lg, duration = t1 - t0, start = Some t0\<rparr>,
             emit (report lib m lg (t1 - t0)) w2)
      | Raise e w2 \<Rightarrow>
          Raise e (\<lparr>msg = m, logger = lg, duration = t1 - t0, start = Some t0\<rparr>,
             emit (report lib m lg (t1 - t0)) w2))"
  by (simp add: TimeContext_with_def with_stmt_def TimeContext_enter_init guarded_def
      TimeContext_exit_started split: outcome.split)

text \<open>
  Claim C8. After \<^verbatim>\<open>with TimeContext(m, lg): block\<close>, whether the block returned or
  raised, the timer's \<^verbatim>\<open>duration\<close> is the reading at exit minus the reading at
  entry, and the events are those the block left followed by exactly one report: the
  info record \<^verbatim>\<open>m takes <duration, '%3.3f'> secs\<close> on the logger when there is one,
  otherwise the coloured console line with the duration formatted by \<^verbatim>\<open>'%3.3f'\<close>.
\<close>

theorem scoped_timer_reports_once:
  fixes lib :: "'t::{zero,minus} pylib"
  shows "\<exists>c' w'. state_of (TimeContext_with lib m lg t0 t1 block w) = (c', w') \<and>
           duration c' = t1 - t0 \<and> msg c' = m \<and> logger c' = lg \<and>
           environ w' = environ (state_of (block (entered m lg w))) \<and>
           events w' = events (state_of (block (entered m lg w))) @ [report lib m lg (t1 - t0)] \<and>
           report lib m lg (t1 - t0) =
             (case lg of
                Some l \<Rightarrow> Log l INFO (m @ '' takes '' @ fmt_float lib ''%3.3f'' (t1 - t0) @ '' secs'')
              | None \<Rightarrow> Print (colored lib
                    (''    ['' @ fmt_float lib ''%3.3f'' (t1 - t0) @ '' secs]'') ''green'' @ [CHR 0x0A]))"
  by (cases "block (entered m lg w)") (simp_all add: TimeContext_with_eq emit_def report_def)

theorem scoped_timer_reports_once_witness:
  "\<exists>c'. TimeContext_with example_lib ''load'' None 4 9 (\<lambda>w. Return () w) world_off =
          Return () (c', \<lparr>environ = Map.empty,
             events = [Print (''load ...'' @ [CHR 0x09]), Print (''    [%3.3f secs]'' @ [CHR 0x0A])]\<rparr>)
        \<and> duration c' = 5"
proof -
  have b: "state_of ((\<lambda>w. Return () w :: (unit, world) outcome) (entered ''load'' None world_off)) =
             \<lparr>environ = Map.empty, events = [Print (''load ...'' @ [CHR 0x09])]\<rparr>"
    by (simp add: entered_def emit_def world_off_def)
  from scoped_timer_reports_once
         [of example_lib "''load''" None 4 9 "\<lambda>w. Return () w" world_off]
  obtain c' w' where
    s: "state_of (TimeContext_with example_lib ''load'' None 4 9 (\<lambda>w. Return () w) world_off) = (c', w')"
    and d: "duration c' = 9 - 4"
    and en: "environ w' = Map.empty"
    and ev: "events w' = [Print (''load ...'' @ [CHR 0x09]), Print (''    [%3.3f secs]'' @ [CHR 0x0A])]"
    unfolding b by (auto simp: example_lib_def)
  from en ev have w': "w' = \<lparr>environ = Map.empty,
             events = [Print (''load ...'' @ [CHR 0x09]), Print (''    [%3.3f secs]'' @ [CHR 0x0A])]\<rparr>"
    by (cases w') simp
  have "\<not> raised (TimeContext_with example_lib ''load'' None 4 9 (\<lambda>w. Return () w) world_off)"
    by (simp add: TimeContext_with_eq)
  with s have "TimeContext_with example_lib ''load'' None 4 9 (\<lambda>w. Return () w) world_off =
                 Return () (c', w')"
    by (cases "TimeContext_with example_lib ''load'' None 4 9 (\<lambda>w. Return () w) world_off") simp_all
  with d w' show ?thesis by auto
qed

text \<open>
  Claim C10. \<^verbatim>\<open>TimeContext.__exit__\<close>, whenever it returns, returns \<^verbatim>\<open>None\<close>,
  which is falsy; so when the guarded block raises an exception, the
  \<^verbatim>\<open>with\<close> statement raises that same exception, after the duration has been
  recorded and reported.
\<close>

theorem exit_never_suppresses:
  fixes lib :: "'t::{zero,minus} pylib"
  shows "(TimeContext_exit lib t cw = Return x cw' \<longrightarrow> x = PyNone \<and> \<not> truthy x)
    \<and> (block (entered m lg w) = Raise e w2 \<longrightarrow>
         (\<exists>c'. TimeContext_with lib m lg t0 t1 block w =
                  Raise e (c', emit (report lib m lg (t1 - t0)) w2) \<and> duration c' = t1 - t0))"
  by (auto simp: TimeContext_exit_def TimeContext_with_eq Let_def split: option.splits)

theorem exit_never_suppresses_witness:
  "TimeContext_exit example_lib 9
      (\<lparr>msg = ''load'', logger = Some (user_logger ''app''), duration = 0, start = Some 4\<rparr>, world_off)
     = Return PyNone
        (\<lparr>msg = ''load'', logger = Some (user_logger ''app''), duration = 5, start = Some 4\<rparr>,
         \<lparr>environ = Map.empty, events = [Log (user_logger ''app'') INFO ''load takes %3.3f secs'']\<rparr>)
   \<and> \<not> truthy PyNone
   \<and> (\<exists>c'. TimeContext_with example_lib ''load'' (Some (user_logger ''app'')) 4 9
               (\<lambda>w. Raise (Exception ''boom'') w) world_off =
             Raise (Exception ''boom'')
               (c', \<lparr>environ = Map.empty,
                     events = [Log (user_logger ''app'') INFO ''load takes %3.3f secs'']\<rparr>) \<and>
             duration c' = 5)"
proof -
  let ?c = "\<lparr>msg = ''load'', logger = Some (user_logger ''app''), duration = 0, start = Some 4\<rparr>
              :: int TimeContext"
  let ?c' = "\<lparr>msg = ''load'', logger = Some (user_logger ''app''), duration = 5, start = Some 4\<rparr>
              :: int TimeContext"
  let ?w' = "\<lparr>environ = Map.empty, events = [Log (user_logger ''app'') INFO ''load takes %3.3f secs'']\<rparr>"
  have x: "TimeContext_exit example_lib 9 (?c, world_off) = Return PyNone (?c', ?w')"
    by (simp add: TimeContext_exit_started report_def emit_def world_off_def example_lib_def)
  have b: "(\<lambda>w. Raise (Exception ''boom'') w :: (unit, world) outcome)
             (entered ''load'' (Some (user_logger ''app'')) world_off) = Raise (Exception ''boom'') world_off"
    by (simp add: entered_def)
  have r: "emit (report example_lib ''load'' (Some (user_logger ''app'')) (9 - 4)) world_off = ?w'"
    by (simp add: report_def emit_def world_off_def example_lib_def)
  from exit_never_suppresses
         [of example_lib 9 "(?c, world_off)" PyNone "(?c', ?w')"
             "\<lambda>w. Raise (Exception ''boom'') w" "''load''" "Some (user_logger ''app'')" world_off
             "Exception ''boom''" world_off 4 9] x b
  have "\<not> truthy PyNone \<and>
        (\<exists>c'. TimeContext_with example_lib ''load'' (Some (user_logger ''app'')) 4 9
               (\<lambda>w. Raise (Exception ''boom'') w) world_off =
             Raise (Exception ''boom'') (c', ?w') \<and> duration c' = 5)"
    unfolding r by simp
  with x show ?thesis by simp
qed


end
